theory Spec2Isabelle
  imports Complex_Main "HOL-Library.Multiset" "HOL-Library.Product_Lexorder"
begin

section \<open>Data model\<close>

text \<open>
  The program is a script over pandas data frames. A frame, as \<^verbatim>\<open>pd.read_csv\<close> hands it
  over, is a header of column names and a list of rows of cells. A cell is missing
  (\<^verbatim>\<open>NaN\<close>), an integer (a column that was inferred \<^verbatim>\<open>int64\<close>), a float (a column that
  was inferred \<^verbatim>\<open>float64\<close>) or a text (a column of dtype object). A cell holds a finite
  number, a float cell the exact rational that the float is; integers beyond the signed 64
  bits are outside this model. Where pandas versions differ, the model follows pandas 2
  (formats are matched exactly, timestamps are in nanoseconds).
\<close>

datatype cell = NaN | Integer int | Num rat | Str string

record frame =
  columns :: "string list"
  cells :: "cell list list"

datatype error =
  ParserError | EmptyDataError | UnicodeDecodeError | KeyError string | ValueError
  | OverflowError

text \<open>
  The result of float64 arithmetic: a finite value, an infinity or the float \<^verbatim>\<open>nan\<close>. The
  dtype of a numeric column, and what \<^verbatim>\<open>Series.sum()\<close> returns: a numpy scalar of the
  dtype of the column.
\<close>

datatype f64 = Fin rat | PInf | NInf | Nan

datatype dtype = int64 | float64

datatype scalar = I64 int | F64 f64

record dtypes =
  sales_dtype :: dtype
  prev_year_dtype :: dtype
  growth_dtype :: dtype

text \<open>A period is a year and a month; pairs are ordered lexicographically, as the
  timestamps of the first days of the months are.\<close>

type_synonym period = "nat \<times> nat"

text \<open>The four column names of the source, as UTF-8 bytes.\<close>

definition col_month :: string where
  "col_month = [CHR 0xEC, CHR 0x9B, CHR 0x94]"

definition col_sales :: string where
  "col_sales = [CHR 0xEB, CHR 0xA7, CHR 0xA4, CHR 0xEC, CHR 0xB6, CHR 0x9C,
                CHR 0xEC, CHR 0x95, CHR 0xA1]"

definition col_prev_year :: string where
  "col_prev_year = [CHR 0xEC, CHR 0xA0, CHR 0x84, CHR 0xEB, CHR 0x85, CHR 0x84,
                    CHR 0xEB, CHR 0x8F, CHR 0x99, CHR 0xEC, CHR 0x9B, CHR 0x94]"

definition col_growth :: string where
  "col_growth = [CHR 0xEC, CHR 0xA6, CHR 0x9D, CHR 0xEA, CHR 0xB0, CHR 0x90,
                 CHR 0xEB, CHR 0xA5, CHR 0xA0]"

text \<open>A row of the loaded table (columns of the frame other than these four are read by
  nothing downstream and are left out), and a row of the table with the two derived
  columns \<^verbatim>\<open>label\<close> and moving average.\<close>

record row =
  month :: period
  sales :: "rat option"
  prev_year :: "rat option"
  growth :: "rat option"

record drow = row +
  month_label :: string
  sales_ma :: "rat option"

text \<open>
  What is decided outside this repository is a parameter of the model: the CSV reader, the
  text-to-number parser behind \<^verbatim>\<open>pd.to_numeric\<close>, the order in which \<^verbatim>\<open>sort_values\<close>
  (default kind, quicksort) leaves the rows, and the float64 arithmetic of numpy, namely
  the sum of a float64 array (its result depends on the order in which numpy adds and
  on the rounding of every partial sum) and the rounding of an exact result to float64 (to
  the nearest float, or to an infinity on overflow).
\<close>

record pandas =
  read_csv :: "string \<Rightarrow> error + frame"
  str_to_float :: "string \<Rightarrow> rat option"
  sort_rows :: "row list \<Rightarrow> row list"
  fsum :: "rat list \<Rightarrow> f64"
  rnd :: "rat \<Rightarrow> f64"

text \<open>The contract of \<^verbatim>\<open>sort_values\<close>: the same rows, ascending by the key. The default
  sorting kind promises nothing about rows with equal keys.\<close>

definition sorts :: "pandas \<Rightarrow> bool" where
  "sorts lib \<longleftrightarrow>
     (\<forall>xs. mset (sort_rows lib xs) = mset xs \<and> sorted (map month (sort_rows lib xs)))"

text \<open>What IEEE 754 says of the rounding: it never gives \<^verbatim>\<open>nan\<close>, and an integer of 64
  bits other than zero becomes a finite float other than zero.\<close>

definition ieee :: "pandas \<Rightarrow> bool" where
  "ieee lib \<longleftrightarrow>
     (\<forall>x. rnd lib x \<noteq> Nan) \<and>
     (\<forall>i::int. i \<noteq> 0 \<longrightarrow> \<bar>i\<bar> \<le> 2 ^ 63 \<longrightarrow> (\<exists>y. y \<noteq> 0 \<and> rnd lib (of_int i) = Fin y))"

section \<open>Loader\<close>

text \<open>\<^verbatim>\<open>SAMPLE_CSV\<close> as \<^verbatim>\<open>pd.read_csv\<close> reads it: a text column, two \<^verbatim>\<open>int64\<close> columns
  and a \<^verbatim>\<open>float64\<close> column.\<close>

definition SAMPLE_CSV :: frame where
  "SAMPLE_CSV = \<lparr>columns = [col_month, col_sales, col_prev_year, col_growth], cells = [
     [Str ''2024-01'', Integer 12000000, Integer 10500000, Num (143 / 10)],
     [Str ''2024-02'', Integer 13500000, Integer 11200000, Num (205 / 10)],
     [Str ''2024-03'', Integer 11000000, Integer 12800000, Num (- 141 / 10)],
     [Str ''2024-04'', Integer 18000000, Integer 15200000, Num (184 / 10)],
     [Str ''2024-05'', Integer 21000000, Integer 18500000, Num (135 / 10)],
     [Str ''2024-06'', Integer 19500000, Integer 17000000, Num (147 / 10)],
     [Str ''2024-07'', Integer 17500000, Integer 16000000, Num (94 / 10)],
     [Str ''2024-08'', Integer 16000000, Integer 15000000, Num (67 / 10)],
     [Str ''2024-09'', Integer 15500000, Integer 14500000, Num (69 / 10)],
     [Str ''2024-10'', Integer 22000000, Integer 20000000, Num (100 / 10)],
     [Str ''2024-11'', Integer 23000000, Integer 21000000, Num (95 / 10)],
     [Str ''2024-12'', Integer 24000000, Integer 21500000, Num (116 / 10)]]\<rparr>"

text \<open>The cell of a row under a column name; a row shorter than the header is padded with
  missing cells, as the reader does.\<close>

fun lookup :: "string list \<Rightarrow> cell list \<Rightarrow> string \<Rightarrow> cell" where
  "lookup (n # ns) (x # xs) c = (if n = c then x else lookup ns xs c)"
| "lookup _ _ c = NaN"

text \<open>\<^verbatim>\<open>df[col]\<close>: the column, or \<^verbatim>\<open>KeyError\<close>.\<close>

definition getitem :: "frame \<Rightarrow> string \<Rightarrow> error + cell list" where
  "getitem df c =
     (if c \<in> set (columns df) then Inr (map (\<lambda>r. lookup (columns df) r c) (cells df))
      else Inl (KeyError c))"

text \<open>\<^verbatim>\<open>strptime\<close> with the format \<^verbatim>\<open>%Y-%m\<close>: four digits, a hyphen, and a month
  \<^verbatim>\<open>1[0-2]|0[1-9]|[1-9]\<close>, with nothing left over. A text is a list of bytes here, and a
  digit is an ASCII digit.\<close>

definition digit :: "char \<Rightarrow> nat option" where
  "digit c = (let n = (of_char c :: nat) in if 48 \<le> n \<and> n \<le> 57 then Some (n - 48) else None)"

fun month_of :: "string \<Rightarrow> nat option" where
  "month_of [a] = (case digit a of Some x \<Rightarrow> if 1 \<le> x then Some x else None | None \<Rightarrow> None)"
| "month_of [a, b] =
     (case (digit a, digit b) of
        (Some x, Some y) \<Rightarrow>
          if x = 1 \<and> y \<le> 2 then Some (10 + y)
          else if x = 0 \<and> 1 \<le> y then Some y
          else None
      | _ \<Rightarrow> None)"
| "month_of _ = None"

fun strptime_Ym :: "string \<Rightarrow> period option" where
  "strptime_Ym (a # b # c # d # h # ms) =
     (case (digit a, digit b, digit c, digit d, month_of ms) of
        (Some y3, Some y2, Some y1, Some y0, Some m) \<Rightarrow>
          if h = CHR ''-'' then Some (1000 * y3 + 100 * y2 + 10 * y1 + y0, m) else None
      | _ \<Rightarrow> None)"
| "strptime_Ym _ = None"

text \<open>The nanosecond timestamps of pandas run from 1677-09-21 to 2262-04-11; a first of
  month outside raises \<^verbatim>\<open>OutOfBoundsDatetime\<close>, a \<^verbatim>\<open>ValueError\<close>.\<close>

definition in_bounds :: "period \<Rightarrow> bool" where
  "in_bounds p \<longleftrightarrow> (1677, 10) \<le> p \<and> p \<le> (2262, 4)"

definition nat_strings :: "string list" where
  "nat_strings = ['''', ''NaT'', ''nat'', ''NAT'', ''nan'', ''NaN'', ''NAN'']"

text \<open>
  \<^verbatim>\<open>pd.to_datetime(column, format="%Y-%m")\<close> on one cell. The call passes no \<^verbatim>\<open>errors\<close>
  argument, so the default \<^verbatim>\<open>errors="raise"\<close> applies: a cell that does not match the
  format raises. A missing cell, and a text that spells the missing timestamp, is \<^verbatim>\<open>NaT\<close>.
  A number is matched by its decimal text, which never has the form of the format; the
  smallest integer of 64 bits is the missing timestamp itself. (The texts \<^verbatim>\<open>now\<close> and
  \<^verbatim>\<open>today\<close>, which pandas reads as the time of the call, are not modelled: they raise
  here.)
\<close>

fun to_datetime_cell :: "cell \<Rightarrow> error + period option" where
  "to_datetime_cell NaN = Inr None"
| "to_datetime_cell (Integer i) = (if i = - (2 ^ 63) then Inr None else Inl ValueError)"
| "to_datetime_cell (Num v) = Inl ValueError"
| "to_datetime_cell (Str s) =
     (if s \<in> set nat_strings then Inr None
      else case strptime_Ym s of
             None \<Rightarrow> Inl ValueError
           | Some p \<Rightarrow> if in_bounds p then Inr (Some p) else Inl ValueError)"

text \<open>The column: the first cell that raises ends the call.\<close>

fun to_datetime :: "cell list \<Rightarrow> error + period option list" where
  "to_datetime [] = Inr []"
| "to_datetime (c # cs) =
     (case to_datetime_cell c of
        Inl e \<Rightarrow> Inl e
      | Inr p \<Rightarrow> (case to_datetime cs of Inl e \<Rightarrow> Inl e | Inr ps \<Rightarrow> Inr (p # ps)))"

text \<open>\<^verbatim>\<open>pd.to_numeric(column, errors="coerce")\<close>: a text that is no number becomes missing.\<close>

fun to_numeric_cell :: "pandas \<Rightarrow> cell \<Rightarrow> rat option" where
  "to_numeric_cell lib NaN = None"
| "to_numeric_cell lib (Integer i) = Some (of_int i)"
| "to_numeric_cell lib (Num v) = Some v"
| "to_numeric_cell lib (Str s) = str_to_float lib s"

definition to_numeric :: "pandas \<Rightarrow> cell list \<Rightarrow> rat option list" where
  "to_numeric lib cs = map (to_numeric_cell lib) cs"

text \<open>
  The dtype of a coerced column. An \<^verbatim>\<open>int64\<close> column of the reader stays \<^verbatim>\<open>int64\<close>. A
  column with a missing cell or a float is \<^verbatim>\<open>float64\<close>, and so is a column with a text:
  the reader leaves a text in a column only where a cell is no number, and that cell is
  coerced to missing. Dropping rows and sorting change no dtype, so these are the dtypes
  of the loaded table.
\<close>

fun is_Integer :: "cell \<Rightarrow> bool" where
  "is_Integer (Integer i) = True"
| "is_Integer c = False"

definition column_dtype :: "frame \<Rightarrow> string \<Rightarrow> dtype" where
  "column_dtype df c =
     (if list_all (\<lambda>r. is_Integer (lookup (columns df) r c)) (cells df) then int64 else float64)"

definition frame_dtypes :: "frame \<Rightarrow> dtypes" where
  "frame_dtypes df =
     \<lparr>sales_dtype = column_dtype df col_sales,
      prev_year_dtype = column_dtype df col_prev_year,
      growth_dtype = column_dtype df col_growth\<rparr>"

text \<open>\<^verbatim>\<open>dropna(subset=[month])\<close> on the four coerced columns, row by row.\<close>

fun dropna :: "(period option \<times> rat option \<times> rat option \<times> rat option) list \<Rightarrow> row list" where
  "dropna [] = []"
| "dropna ((None, s, p, g) # rs) = dropna rs"
| "dropna ((Some m, s, p, g) # rs) =
     \<lparr>month = m, sales = s, prev_year = p, growth = g\<rparr> # dropna rs"

text \<open>
  \<^verbatim>\<open>load_df\<close>. The sample is taken when the flag is set or no bytes came (\<^verbatim>\<open>None\<close> or
  empty), otherwise the bytes are read (lines 48 to 51).
\<close>

definition read_source :: "pandas \<Rightarrow> string option \<Rightarrow> bool \<Rightarrow> error + frame" where
  "read_source lib file_bytes use_sample_flag =
     (if use_sample_flag \<or> file_bytes = None \<or> file_bytes = Some []
      then Inr SAMPLE_CSV else read_csv lib (the file_bytes))"

text \<open>
  The columns are coerced in the order of the source (lines 53 to 55), so the first
  failure among them is the one raised; then the rows without a month are dropped and the
  rest sorted (line 56; \<^verbatim>\<open>reset_index\<close> renumbers the rows, which a list does by itself).
  The decorator \<^verbatim>\<open>st.cache_data\<close> memoises a pure function and changes no result.
\<close>

definition load_df :: "pandas \<Rightarrow> string option \<Rightarrow> bool \<Rightarrow> error + row list" where
  "load_df lib file_bytes use_sample_flag =
     (case read_source lib file_bytes use_sample_flag of
        Inl e \<Rightarrow> Inl e
      | Inr df \<Rightarrow>
     (case getitem df col_month of Inl e \<Rightarrow> Inl e | Inr mc \<Rightarrow>
     (case to_datetime mc of Inl e \<Rightarrow> Inl e | Inr ms \<Rightarrow>
     (case getitem df col_sales of Inl e \<Rightarrow> Inl e | Inr sc \<Rightarrow>
     (case getitem df col_prev_year of Inl e \<Rightarrow> Inl e | Inr pc \<Rightarrow>
     (case getitem df col_growth of Inl e \<Rightarrow> Inl e | Inr gc \<Rightarrow>
        Inr (sort_rows lib (dropna
          (zip ms (zip (to_numeric lib sc) (zip (to_numeric lib pc) (to_numeric lib gc))))))))))))"

text \<open>The caller's check after loading (line 61): the script stops on an empty frame. Its
  second test, that the four columns are there, holds of every frame that \<^verbatim>\<open>load_df\<close>
  returns, since \<^verbatim>\<open>load_df\<close> has read all four.\<close>

definition valid :: "row list \<Rightarrow> bool" where
  "valid df \<longleftrightarrow> df \<noteq> []"

section \<open>Aggregator\<close>

text \<open>The values that a mean sees: with the default \<^verbatim>\<open>skipna=True\<close> the missing entries
  of a series are left out.\<close>

fun present :: "'a option list \<Rightarrow> 'a list" where
  "present [] = []"
| "present (None # xs) = present xs"
| "present (Some v # xs) = v # present xs"

text \<open>
  \<^verbatim>\<open>Series.sum()\<close> puts zero in the place of every missing entry and lets numpy add the
  array in the dtype of the column. An \<^verbatim>\<open>int64\<close> sum wraps around at 64 bits (two's
  complement); a \<^verbatim>\<open>float64\<close> sum is the float sum of the library. A column with a missing
  entry cannot be \<^verbatim>\<open>int64\<close>.
\<close>

definition wrap64 :: "int \<Rightarrow> int" where
  "wrap64 k = (k + 2 ^ 63) mod 2 ^ 64 - 2 ^ 63"

fun fill0 :: "rat option \<Rightarrow> rat" where
  "fill0 None = 0"
| "fill0 (Some v) = v"

definition series_sum :: "pandas \<Rightarrow> dtype \<Rightarrow> rat option list \<Rightarrow> scalar" where
  "series_sum lib dt xs =
     (if dt = int64 \<and> None \<notin> set xs then I64 (wrap64 (\<Sum>x\<leftarrow>xs. \<lfloor>fill0 x\<rfloor>))
      else F64 (fsum lib (map fill0 xs)))"

text \<open>
  \<^verbatim>\<open>Series.mean()\<close>; the mean of no value is missing. The mean and the moving average
  below are kept exact: the script only shows them, rounded, and nothing is tested on
  them or cut off from them, whereas the sum is truncated by \<^verbatim>\<open>int\<close> and tested against
  zero.
\<close>

definition series_mean :: "rat option list \<Rightarrow> rat option" where
  "series_mean xs =
     (case present xs of [] \<Rightarrow> None | v # vs \<Rightarrow> Some (sum_list (v # vs) / of_nat (length (v # vs))))"

text \<open>
  \<^verbatim>\<open>Series.rolling(window=w, min_periods=w).mean()\<close>: the window of row \<open>i\<close> is the last
  \<open>w\<close> rows up to \<open>i\<close> (fewer at the start); the mean is of the values present in it, and
  it is missing unless at least \<open>min_periods\<close> of them are present.
\<close>

definition rolling_mean :: "nat \<Rightarrow> rat option list \<Rightarrow> rat option list" where
  "rolling_mean w xs =
     map (\<lambda>i. let obs = present (drop (Suc i - w) (take (Suc i) xs))
              in if obs \<noteq> [] \<and> w \<le> length obs
                 then Some (sum_list obs / of_nat (length obs)) else None)
         [0..<length xs]"

text \<open>\<^verbatim>\<open>strftime("%Y-%m")\<close>: the year in four digits, the month in two.\<close>

definition digit_char :: "nat \<Rightarrow> char" where
  "digit_char d = char_of (48 + d mod 10)"

definition strftime_Ym :: "period \<Rightarrow> string" where
  "strftime_Ym p =
     (case p of (y, m) \<Rightarrow>
        [digit_char (y div 1000), digit_char (y div 100), digit_char (y div 10), digit_char y,
         CHR ''-'', digit_char (m div 10), digit_char m])"

text \<open>The two derived columns of the script (lines 66 and 67), as a function of the table
  and of the window the sidebar delivers (an integer from 2 to 12).\<close>

definition augment :: "nat \<Rightarrow> row list \<Rightarrow> drow list" where
  "augment window df =
     map (\<lambda>(r, a). \<lparr>month = month r, sales = sales r, prev_year = prev_year r,
                     growth = growth r, month_label = strftime_Ym (month r), sales_ma = a\<rparr>)
         (zip df (rolling_mean window (map sales df)))"

text \<open>\<^verbatim>\<open>int(x)\<close> of a float truncates towards zero.\<close>

definition py_int :: "rat \<Rightarrow> int" where
  "py_int x = (if 0 \<le> x then \<lfloor>x\<rfloor> else \<lceil>x\<rceil>)"

text \<open>Line 73. \<^verbatim>\<open>int\<close> of a numpy integer is that integer; of an infinite float it raises
  \<^verbatim>\<open>OverflowError\<close>, of \<^verbatim>\<open>nan\<close> \<^verbatim>\<open>ValueError\<close>.\<close>

definition total_sales :: "pandas \<Rightarrow> dtypes \<Rightarrow> 'a row_scheme list \<Rightarrow> error + int" where
  "total_sales lib dts df =
     (case series_sum lib (sales_dtype dts) (map sales df) of
        I64 i \<Rightarrow> Inr i
      | F64 (Fin x) \<Rightarrow> Inr (py_int x)
      | F64 Nan \<Rightarrow> Inl ValueError
      | F64 _ \<Rightarrow> Inl OverflowError)"

definition avg_growth :: "'a row_scheme list \<Rightarrow> rat option" where
  "avg_growth df = series_mean (map growth df)"

text \<open>
  The arithmetic of numpy scalars on line 75. The difference of two \<^verbatim>\<open>int64\<close> wraps
  around; with a float on either side the integer is converted and the floats are
  subtracted. \<^verbatim>\<open>/\<close> is the division of floats, also of two integers. Every float operation
  is the exact result rounded, with the rules of IEEE 754 for the infinities and \<^verbatim>\<open>nan\<close>
  (the sign of a zero is not kept). A scalar is true unless it is zero, so \<^verbatim>\<open>nan\<close> and
  the infinities are true.
\<close>

fun to_f64 :: "pandas \<Rightarrow> scalar \<Rightarrow> f64" where
  "to_f64 lib (I64 i) = rnd lib (of_int i)"
| "to_f64 lib (F64 x) = x"

fun fsub :: "pandas \<Rightarrow> f64 \<Rightarrow> f64 \<Rightarrow> f64" where
  "fsub lib (Fin x) (Fin y) = rnd lib (x - y)"
| "fsub lib Nan b = Nan"
| "fsub lib a Nan = Nan"
| "fsub lib PInf PInf = Nan"
| "fsub lib NInf NInf = Nan"
| "fsub lib PInf b = PInf"
| "fsub lib NInf b = NInf"
| "fsub lib (Fin x) PInf = NInf"
| "fsub lib (Fin x) NInf = PInf"

fun fdiv :: "pandas \<Rightarrow> f64 \<Rightarrow> f64 \<Rightarrow> f64" where
  "fdiv lib (Fin x) (Fin y) =
     (if y = 0 then (if x = 0 then Nan else if 0 < x then PInf else NInf)
      else rnd lib (x / y))"
| "fdiv lib Nan b = Nan"
| "fdiv lib a Nan = Nan"
| "fdiv lib (Fin x) b = Fin 0"
| "fdiv lib PInf (Fin y) = (if 0 \<le> y then PInf else NInf)"
| "fdiv lib NInf (Fin y) = (if 0 \<le> y then NInf else PInf)"
| "fdiv lib a b = Nan"

fun fmul :: "pandas \<Rightarrow> f64 \<Rightarrow> f64 \<Rightarrow> f64" where
  "fmul lib (Fin x) (Fin y) = rnd lib (x * y)"
| "fmul lib Nan b = Nan"
| "fmul lib a Nan = Nan"
| "fmul lib PInf (Fin y) = (if y = 0 then Nan else if 0 < y then PInf else NInf)"
| "fmul lib NInf (Fin y) = (if y = 0 then Nan else if 0 < y then NInf else PInf)"
| "fmul lib (Fin x) PInf = (if x = 0 then Nan else if 0 < x then PInf else NInf)"
| "fmul lib (Fin x) NInf = (if x = 0 then Nan else if 0 < x then NInf else PInf)"
| "fmul lib PInf PInf = PInf"
| "fmul lib NInf NInf = PInf"
| "fmul lib a b = NInf"

fun sub :: "pandas \<Rightarrow> scalar \<Rightarrow> scalar \<Rightarrow> scalar" where
  "sub lib (I64 a) (I64 b) = I64 (wrap64 (a - b))"
| "sub lib a b = F64 (fsub lib (to_f64 lib a) (to_f64 lib b))"

definition truediv :: "pandas \<Rightarrow> scalar \<Rightarrow> scalar \<Rightarrow> f64" where
  "truediv lib a b = fdiv lib (to_f64 lib a) (to_f64 lib b)"

fun is_zero :: "scalar \<Rightarrow> bool" where
  "is_zero (I64 i) = (i = 0)"
| "is_zero (F64 (Fin x)) = (x = 0)"
| "is_zero (F64 x) = False"

text \<open>Line 75: the guarded quotient, or \<^verbatim>\<open>np.nan\<close>.\<close>

definition yoy_total :: "pandas \<Rightarrow> dtypes \<Rightarrow> 'a row_scheme list \<Rightarrow> f64" where
  "yoy_total lib dts df =
     (let s = series_sum lib (sales_dtype dts) (map sales df);
          p = series_sum lib (prev_year_dtype dts) (map prev_year df)
      in if \<not> is_zero p then fmul lib (truediv lib (sub lib s p) p) (Fin 100) else Nan)"

text \<open>
  \<^verbatim>\<open>Series.idxmax()\<close> and \<^verbatim>\<open>idxmin()\<close>: one pass that skips missing values and replaces
  the best position only by a strictly better value. An empty series raises; of a series
  of missing values only, the label is \<^verbatim>\<open>nan\<close> (pandas 3 raises \<^verbatim>\<open>ValueError\<close> there
  too).
\<close>

fun argbest :: "(rat \<Rightarrow> rat \<Rightarrow> bool) \<Rightarrow> nat \<Rightarrow> (nat \<times> rat) option \<Rightarrow> rat option list
    \<Rightarrow> (nat \<times> rat) option" where
  "argbest better i best [] = best"
| "argbest better i best (None # xs) = argbest better (Suc i) best xs"
| "argbest better i best (Some v # xs) =
     argbest better (Suc i)
       (case best of
          None \<Rightarrow> Some (i, v)
        | Some (j, b) \<Rightarrow> if better v b then Some (i, v) else Some (j, b))
       xs"

definition idxmax :: "rat option list \<Rightarrow> error + nat option" where
  "idxmax xs =
     (if xs = [] then Inl ValueError
      else Inr (map_option fst (argbest (\<lambda>v b. b < v) 0 None xs)))"

definition idxmin :: "rat option list \<Rightarrow> error + nat option" where
  "idxmin xs =
     (if xs = [] then Inl ValueError
      else Inr (map_option fst (argbest (\<lambda>v b. v < b) 0 None xs)))"

text \<open>\<^verbatim>\<open>df.loc[...]\<close> on the renumbered index is the row at that position; the label
  \<^verbatim>\<open>nan\<close> is no row and raises \<^verbatim>\<open>KeyError\<close>.\<close>

definition max_row :: "'a row_scheme list \<Rightarrow> error + 'a row_scheme" where
  "max_row df =
     (case idxmax (map sales df) of
        Inl e \<Rightarrow> Inl e
      | Inr None \<Rightarrow> Inl (KeyError ''nan'')
      | Inr (Some i) \<Rightarrow> Inr (df ! i))"

definition min_row :: "'a row_scheme list \<Rightarrow> error + 'a row_scheme" where
  "min_row df =
     (case idxmin (map sales df) of
        Inl e \<Rightarrow> Inl e
      | Inr None \<Rightarrow> Inl (KeyError ''nan'')
      | Inr (Some i) \<Rightarrow> Inr (df ! i))"

section \<open>Export\<close>

text \<open>
  The download (line 159) is \<^verbatim>\<open>df.to_csv(index=False).encode("utf-8-sig")\<close> of the whole
  frame: the timestamp column of the months, written as dates \<^verbatim>\<open>%Y-%m-%d\<close>, the three
  numeric columns in their dtypes, the label and the moving average (a float column), a
  missing value as an empty field. \<open>exported\<close> is that file as the reader gives it back:
  the reader skips the byte-order mark, parses no dates unless asked to, and reads an
  empty field as missing.
\<close>

definition col_month_label :: string where
  "col_month_label = col_month @ ''_label''"

definition col_sales_ma :: string where
  "col_sales_ma = col_sales @ ''_'' @
     [CHR 0xEC, CHR 0x9D, CHR 0xB4, CHR 0xEB, CHR 0x8F, CHR 0x99,
      CHR 0xED, CHR 0x8F, CHR 0x89, CHR 0xEA, CHR 0xB7, CHR 0xA0]"

definition isoformat :: "period \<Rightarrow> string" where
  "isoformat p = strftime_Ym p @ ''-01''"

fun num_cell :: "dtype \<Rightarrow> rat option \<Rightarrow> cell" where
  "num_cell dt None = NaN"
| "num_cell int64 (Some v) = Integer \<lfloor>v\<rfloor>"
| "num_cell float64 (Some v) = Num v"

definition exported :: "dtypes \<Rightarrow> drow list \<Rightarrow> frame" where
  "exported dts df =
     \<lparr>columns = [col_month, col_sales, col_prev_year, col_growth, col_month_label, col_sales_ma],
      cells = map (\<lambda>r. [Str (isoformat (month r)),
                         num_cell (sales_dtype dts) (sales r),
                         num_cell (prev_year_dtype dts) (prev_year r),
                         num_cell (growth_dtype dts) (growth r),
                         Str (month_label r),
                         num_cell float64 (sales_ma r)]) df\<rparr>"

section \<open>A library to compute with\<close>

text \<open>
  For concrete runs the parameters are fixed: the upload is one that the reader turns into
  a given frame, numbers in text are plain decimals (an optional minus sign, digits, an
  optional fraction), the sort is the insertion sort of the HOL library, and float
  arithmetic is exact. It is used on numbers on which float64 arithmetic is exact too
  (small integers and their quotients by powers of two).
\<close>

fun digits_val :: "nat \<Rightarrow> string \<Rightarrow> nat option" where
  "digits_val acc [] = Some acc"
| "digits_val acc (c # cs) =
     (case digit c of None \<Rightarrow> None | Some d \<Rightarrow> digits_val (10 * acc + d) cs)"

definition unsigned_decimal :: "string \<Rightarrow> rat option" where
  "unsigned_decimal s =
     (let ip = takeWhile (\<lambda>c. c \<noteq> CHR ''.'') s; fp = drop (Suc (length ip)) s
      in if ip = [] then None
         else case (digits_val 0 ip, digits_val 0 fp) of
                (Some a, Some b) \<Rightarrow> Some (of_nat a + of_nat b / 10 ^ length fp)
              | _ \<Rightarrow> None)"

fun plain_decimal :: "string \<Rightarrow> rat option" where
  "plain_decimal [] = None"
| "plain_decimal (c # cs) =
     (if c = CHR ''-'' then map_option uminus (unsigned_decimal cs)
      else unsigned_decimal (c # cs))"

definition reading :: "frame \<Rightarrow> pandas" where
  "reading df =
     \<lparr>read_csv = (\<lambda>b. Inr df), str_to_float = plain_decimal, sort_rows = sort_key month,
      fsum = (\<lambda>xs. Fin (sum_list xs)), rnd = Fin\<rparr>"

text \<open>A frame with the four required columns.\<close>

definition four_columns :: "cell list list \<Rightarrow> frame" where
  "four_columns cs = \<lparr>columns = [col_month, col_sales, col_prev_year, col_growth], cells = cs\<rparr>"

section \<open>What the loader does to one row\<close>

text \<open>The row of the table that a row of the frame becomes, if it is kept: its month cell
  must be a month; each numeric cell is coerced on its own.\<close>

definition row_of :: "pandas \<Rightarrow> string list \<Rightarrow> cell list \<Rightarrow> row option" where
  "row_of lib cols r =
     (case to_datetime_cell (lookup cols r col_month) of
        Inr (Some m) \<Rightarrow>
          Some \<lparr>month = m,
                sales = to_numeric_cell lib (lookup cols r col_sales),
                prev_year = to_numeric_cell lib (lookup cols r col_prev_year),
                growth = to_numeric_cell lib (lookup cols r col_growth)\<rparr>
      | _ \<Rightarrow> None)"

definition required :: "string set" where
  "required = {col_month, col_sales, col_prev_year, col_growth}"

text \<open>Every month cell of the frame is missing or a month: none raises.\<close>

definition months_parse :: "frame \<Rightarrow> bool" where
  "months_parse df \<longleftrightarrow>
     list_all (\<lambda>r. \<not> isl (to_datetime_cell (lookup (columns df) r col_month))) (cells df)"

text \<open>The table that the loader makes of the sample, written out.\<close>

definition sample_table :: "row list" where
  "sample_table =
    [\<lparr>month = (2024, 1), sales = Some 12000000, prev_year = Some 10500000, growth = Some (143 / 10)\<rparr>,
     \<lparr>month = (2024, 2), sales = Some 13500000, prev_year = Some 11200000, growth = Some (205 / 10)\<rparr>,
     \<lparr>month = (2024, 3), sales = Some 11000000, prev_year = Some 12800000, growth = Some (- 141 / 10)\<rparr>,
     \<lparr>month = (2024, 4), sales = Some 18000000, prev_year = Some 15200000, growth = Some (184 / 10)\<rparr>,
     \<lparr>month = (2024, 5), sales = Some 21000000, prev_year = Some 18500000, growth = Some (135 / 10)\<rparr>,
     \<lparr>month = (2024, 6), sales = Some 19500000, prev_year = Some 17000000, growth = Some (147 / 10)\<rparr>,
     \<lparr>month = (2024, 7), sales = Some 17500000, prev_year = Some 16000000, growth = Some (94 / 10)\<rparr>,
     \<lparr>month = (2024, 8), sales = Some 16000000, prev_year = Some 15000000, growth = Some (67 / 10)\<rparr>,
     \<lparr>month = (2024, 9), sales = Some 15500000, prev_year = Some 14500000, growth = Some (69 / 10)\<rparr>,
     \<lparr>month = (2024, 10), sales = Some 22000000, prev_year = Some 20000000, growth = Some (100 / 10)\<rparr>,
     \<lparr>month = (2024, 11), sales = Some 23000000, prev_year = Some 21000000, growth = Some (95 / 10)\<rparr>,
     \<lparr>month = (2024, 12), sales = Some 24000000, prev_year = Some 21500000, growth = Some (116 / 10)\<rparr>]"

text \<open>A scalar is finite when it is an integer or a finite float.\<close>

fun finite_scalar :: "scalar \<Rightarrow> bool" where
  "finite_scalar (I64 i) = True"
| "finite_scalar (F64 (Fin x)) = True"
| "finite_scalar (F64 x) = False"

text \<open>Two uploads, as the reader reads them: four rows with a prior-year revenue of
  \<open>2 ^ 62\<close> each, in two \<^verbatim>\<open>int64\<close> columns; and two rows, the second without any
  amount.\<close>

definition wrapping_upload :: frame where
  "wrapping_upload = four_columns
     [[Str ''2024-01'', Integer 1, Integer 4611686018427387904, Num 0],
      [Str ''2024-02'', Integer 1, Integer 4611686018427387904, Num 0],
      [Str ''2024-03'', Integer 1, Integer 4611686018427387904, Num 0],
      [Str ''2024-04'', Integer 1, Integer 4611686018427387904, Num 0]]"

definition gappy_upload :: frame where
  "gappy_upload = four_columns
     [[Str ''2024-01'', Num 100, Num 80, Num 25],
      [Str ''2024-02'', NaN, NaN, NaN]]"

text \<open>The bytes of an upload. The library \<open>reading df\<close> stands for pandas at an upload that
  its reader turns into the frame \<open>df\<close>; which bytes those are plays no role.\<close>

definition upload :: string where
  "upload = ''(uploaded file)''"

section \<open>Auxiliary lemmas: the loader, row by row\<close>

lemma to_datetime_ok:
  "list_all (\<lambda>c. \<not> isl (to_datetime_cell c)) cs \<Longrightarrow>
   to_datetime cs = Inr (map (\<lambda>c. projr (to_datetime_cell c)) cs)"
  by (induction cs) (auto split: sum.splits)

lemma to_datetime_Inr:
  "to_datetime cs = Inr ps \<Longrightarrow> list_all (\<lambda>c. \<not> isl (to_datetime_cell c)) cs"
  by (induction cs arbitrary: ps) (auto split: sum.splits)

lemma zip4_map:
  "zip (map f1 rs) (zip (map f2 rs) (zip (map f3 rs) (map f4 rs)))
   = map (\<lambda>r. (f1 r, f2 r, f3 r, f4 r)) rs"
  by (induction rs) auto

lemma dropna_map:
  "list_all (\<lambda>r. \<not> isl (to_datetime_cell (lookup cols r col_month))) rs \<Longrightarrow>
   dropna (map (\<lambda>r. (projr (to_datetime_cell (lookup cols r col_month)),
                      to_numeric_cell lib (lookup cols r col_sales),
                      to_numeric_cell lib (lookup cols r col_prev_year),
                      to_numeric_cell lib (lookup cols r col_growth))) rs)
   = List.map_filter (row_of lib cols) rs"
proof (induction rs)
  case Nil
  show ?case by simp
next
  case (Cons r rs)
  then obtain p where p: "to_datetime_cell (lookup cols r col_month) = Inr p"
    by (cases "to_datetime_cell (lookup cols r col_month)") auto
  with Cons show ?case
    by (cases p) (simp_all add: row_of_def)
qed

lemma load_df_Inr_iff:
  "load_df lib fb flag = Inr t \<longleftrightarrow>
     (\<exists>df. read_source lib fb flag = Inr df \<and> required \<subseteq> set (columns df) \<and> months_parse df
       \<and> t = sort_rows lib (List.map_filter (row_of lib (columns df)) (cells df)))"
proof
  assume L: "load_df lib fb flag = Inr t"
  then obtain df where df: "read_source lib fb flag = Inr df"
    by (cases "read_source lib fb flag") (auto simp: load_df_def)
  from L df have cols: "required \<subseteq> set (columns df)"
    by (auto simp: load_df_def getitem_def required_def split: if_splits sum.splits)
  from L df cols obtain ms where
    ms: "to_datetime (map (\<lambda>r. lookup (columns df) r col_month) (cells df)) = Inr ms"
    by (auto simp: load_df_def getitem_def required_def split: sum.splits)
  then have mp: "months_parse df"
    using to_datetime_Inr [OF ms] by (simp add: months_parse_def list_all_iff)
  have ms': "ms = map (\<lambda>r. projr (to_datetime_cell (lookup (columns df) r col_month))) (cells df)"
    using to_datetime_ok [of "map (\<lambda>r. lookup (columns df) r col_month) (cells df)"] mp ms
    by (simp add: months_parse_def list_all_iff comp_def)
  have "t = sort_rows lib (List.map_filter (row_of lib (columns df)) (cells df))"
    using L df cols ms mp
    by (simp add: load_df_def getitem_def required_def to_numeric_def ms' zip4_map
        dropna_map months_parse_def)
  with df cols mp show "\<exists>df. read_source lib fb flag = Inr df \<and> required \<subseteq> set (columns df)
       \<and> months_parse df
       \<and> t = sort_rows lib (List.map_filter (row_of lib (columns df)) (cells df))"
    by blast
next
  assume "\<exists>df. read_source lib fb flag = Inr df \<and> required \<subseteq> set (columns df) \<and> months_parse df
       \<and> t = sort_rows lib (List.map_filter (row_of lib (columns df)) (cells df))"
  then obtain df where df: "read_source lib fb flag = Inr df"
    and cols: "required \<subseteq> set (columns df)" and mp: "months_parse df"
    and t: "t = sort_rows lib (List.map_filter (row_of lib (columns df)) (cells df))"
    by blast
  have ms: "to_datetime (map (\<lambda>r. lookup (columns df) r col_month) (cells df))
     = Inr (map (\<lambda>r. projr (to_datetime_cell (lookup (columns df) r col_month))) (cells df))"
    using to_datetime_ok [of "map (\<lambda>r. lookup (columns df) r col_month) (cells df)"] mp
    by (simp add: months_parse_def list_all_iff comp_def)
  show "load_df lib fb flag = Inr t"
    using df cols mp
    by (simp add: load_df_def getitem_def required_def to_numeric_def ms zip4_map
        dropna_map months_parse_def t)
qed

section \<open>Auxiliary lemmas: the sort and the sample\<close>

lemma sorts_reading: "sorts (reading df)"
  by (simp add: sorts_def reading_def)

lemma ieee_reading: "ieee (reading df)"
  by (simp add: ieee_def reading_def)

lemma sorted_distinct_unique:
  assumes "mset ys = mset xs" "sorted (map k ys)" "sorted (map k xs)" "distinct (map k xs)"
  shows "ys = xs"
proof -
  have m: "mset (map k ys) = mset (map k xs)" using assms(1) by simp
  then have d: "distinct (map k ys)" using assms(4) by (metis distinct_count_atmost_1 set_mset_mset)
  have s: "set (map k ys) = set (map k xs)" using m by (metis set_mset_mset)
  have e: "map k ys = map k xs"
    using sorted_distinct_set_unique [OF assms(2) d assms(3) assms(4) s] .
  have "set ys = set xs" using assms(1) by (metis set_mset_mset)
  moreover have "inj_on k (set xs)" using assms(4) by (simp add: distinct_map)
  ultimately have "inj_on k (set ys \<union> set xs)" by simp
  then show ?thesis using e by (simp add: inj_on_map_eq_map)
qed

lemma sort_rows_fixed:
  "sorts lib \<Longrightarrow> sorted (map month xs) \<Longrightarrow> distinct (map month xs) \<Longrightarrow> sort_rows lib xs = xs"
  using sorted_distinct_unique [of "sort_rows lib xs" xs month] by (simp add: sorts_def)

lemma sample_columns: "required \<subseteq> set (columns SAMPLE_CSV)"
  by (simp add: required_def SAMPLE_CSV_def)

lemma sample_months_parse: "months_parse SAMPLE_CSV"
  by (simp add: months_parse_def SAMPLE_CSV_def col_month_def nat_strings_def digit_def
      in_bounds_def)

lemma sample_rows:
  "List.map_filter (row_of lib (columns SAMPLE_CSV)) (cells SAMPLE_CSV) = sample_table"
  by (simp add: SAMPLE_CSV_def sample_table_def row_of_def col_month_def col_sales_def
      col_prev_year_def col_growth_def nat_strings_def digit_def in_bounds_def)

lemma load_sample:
  assumes "sorts lib"
  shows "load_df lib fb True = Inr sample_table"
proof -
  have "sort_rows lib sample_table = sample_table"
    by (rule sort_rows_fixed [OF assms]) (simp_all add: sample_table_def)
  moreover have "read_source lib fb True = Inr SAMPLE_CSV"
    by (simp add: read_source_def)
  ultimately show ?thesis
    using sample_columns sample_months_parse sample_rows [of lib]
    by (auto simp: load_df_Inr_iff)
qed

section \<open>Auxiliary lemmas: the derived columns\<close>

lemma length_rolling_mean: "length (rolling_mean w xs) = length xs"
  by (simp add: rolling_mean_def)

lemma length_augment: "length (augment w df) = length df"
  by (simp add: augment_def length_rolling_mean)

lemma augment_nth:
  "i < length df \<Longrightarrow>
   augment w df ! i =
     \<lparr>month = month (df ! i), sales = sales (df ! i), prev_year = prev_year (df ! i),
      growth = growth (df ! i), month_label = strftime_Ym (month (df ! i)),
      sales_ma = rolling_mean w (map sales df) ! i\<rparr>"
  by (simp add: augment_def length_rolling_mean)

lemma present_all: "None \<notin> set xs \<Longrightarrow> present xs = map the xs"
  by (induction xs rule: present.induct) auto

lemma length_present_le: "length (present xs) \<le> length xs"
  by (induction xs rule: present.induct) auto

lemma length_present_less: "None \<in> set xs \<Longrightarrow> length (present xs) < length xs"
proof (induction xs rule: present.induct)
  case (2 xs)
  show ?case using length_present_le [of xs] by simp
qed auto

lemma window_conv:
  "i < length xs \<Longrightarrow> drop (Suc i - w) (take (Suc i) xs) = map ((!) xs) [Suc i - w..<Suc i]"
  by (auto simp: list_eq_iff_nth_eq min_def simp del: upt_Suc)

lemma rolling_mean_nth:
  assumes "i < length xs"
  shows "rolling_mean w xs ! i =
     (let obs = present (map ((!) xs) [Suc i - w..<Suc i])
      in if obs \<noteq> [] \<and> w \<le> length obs
         then Some (sum_list obs / of_nat (length obs)) else None)"
  using assms by (simp add: rolling_mean_def window_conv)

section \<open>Auxiliary lemmas: the summary figures\<close>

lemma sum_present_conv:
  "sum_list (present (map f df)) = (\<Sum>r\<leftarrow>df. case f r of None \<Rightarrow> 0 | Some v \<Rightarrow> v)"
  by (induction df) (auto split: option.splits)

lemma present_Nil_iff: "present xs = [] \<longleftrightarrow> (\<forall>x\<in>set xs. x = None)"
  by (induction xs rule: present.induct) auto

lemma length_present_filter:
  "length (present (map f df)) = length (filter (\<lambda>r. f r \<noteq> None) df)"
  by (induction df) (auto split: option.splits)

lemma series_mean_conv:
  "series_mean (map f df) =
     (if \<forall>r\<in>set df. f r = None then None
      else Some ((\<Sum>r\<leftarrow>df. case f r of None \<Rightarrow> 0 | Some v \<Rightarrow> v)
                   / of_nat (length (filter (\<lambda>r. f r \<noteq> None) df))))"
proof (cases "present (map f df)")
  case Nil
  then show ?thesis using present_Nil_iff [of "map f df"] by (simp add: series_mean_def)
next
  case (Cons v vs)
  then have "\<not> (\<forall>r\<in>set df. f r = None)"
    using present_Nil_iff [of "map f df"] by auto
  moreover have "sum_list (v # vs) = (\<Sum>r\<leftarrow>df. case f r of None \<Rightarrow> 0 | Some v \<Rightarrow> v)"
    using sum_present_conv [of f df] Cons by simp
  moreover have "length (v # vs) = length (filter (\<lambda>r. f r \<noteq> None) df)"
    using length_present_filter [of f df] Cons by simp
  ultimately show ?thesis using Cons by (simp add: series_mean_def del: sum_list.Cons)
qed

lemma argbest_keeps:
  assumes "\<forall>v. Some v \<in> set xs \<longrightarrow> \<not> better v m"
  shows "argbest better k (Some (j, m)) xs = Some (j, m)"
  using assms by (induction xs arbitrary: k rule: present.induct) auto

lemma argbest_first:
  assumes total: "\<And>a b. a \<noteq> b \<Longrightarrow> \<not> better a b \<Longrightarrow> better b a"
    and "i < length xs" and "xs ! i = Some m"
    and "\<forall>v. Some v \<in> set xs \<longrightarrow> \<not> better v m"
    and "\<forall>j<i. xs ! j \<noteq> Some m"
    and "best = None \<or> (\<exists>j b. best = Some (j, b) \<and> better m b)"
  shows "argbest better k best xs = Some (k + i, m)"
  using assms(2-)
proof (induction xs arbitrary: i k best)
  case Nil
  then show ?case by simp
next
  case (Cons x xs)
  show ?case
  proof (cases i)
    case 0
    with Cons.prems have x: "x = Some m" by simp
    have keep: "argbest better (Suc k) (Some (k, m)) xs = Some (k, m)"
      using Cons.prems(3) by (intro argbest_keeps) auto
    from Cons.prems(5) show ?thesis
      using x keep 0 by auto
  next
    case (Suc i')
    have i': "i' < length xs" "xs ! i' = Some m" using Cons.prems Suc by auto
    have nb: "\<forall>v. Some v \<in> set xs \<longrightarrow> \<not> better v m" using Cons.prems(3) by auto
    have fst: "\<forall>j<i'. xs ! j \<noteq> Some m" using Cons.prems(4) Suc by auto
    show ?thesis
    proof (cases x)
      case None
      then show ?thesis
        using Cons.IH [OF i' nb fst Cons.prems(5), of "Suc k"] Suc by simp
    next
      case (Some v)
      have "v \<noteq> m" using Cons.prems(4) Suc Some by auto
      moreover have "\<not> better v m" using Cons.prems(3) Some by auto
      ultimately have bv: "better m v" using total by blast
      let ?best = "case best of None \<Rightarrow> Some (k, v)
                   | Some (j, b) \<Rightarrow> if better v b then Some (k, v) else Some (j, b)"
      have "?best = None \<or> (\<exists>j b. ?best = Some (j, b) \<and> better m b)"
        using Cons.prems(5) bv by (auto split: option.splits)
      from Cons.IH [OF i' nb fst this, of "Suc k"] show ?thesis
        using Some Suc by simp
    qed
  qed
qed

section \<open>Auxiliary lemmas: sums and float arithmetic\<close>

lemma wrap64_range: "- (2 ^ 63) \<le> wrap64 k \<and> wrap64 k < 2 ^ 63"
  by (simp add: wrap64_def)

lemma wrap64_abs: "\<bar>wrap64 k\<bar> \<le> 2 ^ 63"
  using wrap64_range [of k] by linarith

lemma wrap64_zero_iff: "wrap64 k = 0 \<longleftrightarrow> 2 ^ 64 dvd k"
proof -
  have "wrap64 k = 0 \<longleftrightarrow> (k + 2 ^ 63) mod 2 ^ 64 = (2 ^ 63 :: int)"
    by (simp add: wrap64_def)
  also have "\<dots> \<longleftrightarrow> (k + 2 ^ 63) mod 2 ^ 64 = 2 ^ 63 mod (2 ^ 64 :: int)"
    by simp
  also have "\<dots> \<longleftrightarrow> 2 ^ 64 dvd (k + 2 ^ 63 - 2 ^ 63)"
    by (rule mod_eq_dvd_iff)
  finally show ?thesis by simp
qed

lemma series_sum_missing:
  "None \<in> set xs \<Longrightarrow> series_sum lib dt xs = F64 (fsum lib (map fill0 xs))"
  by (simp add: series_sum_def)

lemma series_sum_cases:
  obtains i where "series_sum lib dt xs = I64 i" "\<bar>i\<bar> \<le> 2 ^ 63"
  | x where "series_sum lib dt xs = F64 x"
proof (cases "dt = int64 \<and> None \<notin> set xs")
  case True
  then have "series_sum lib dt xs = I64 (wrap64 (\<Sum>x\<leftarrow>xs. \<lfloor>fill0 x\<rfloor>))"
    by (simp add: series_sum_def)
  then show ?thesis using that(1) wrap64_abs by blast
next
  case False
  then have "series_sum lib dt xs = F64 (fsum lib (map fill0 xs))"
    by (auto simp: series_sum_def)
  then show ?thesis using that(2) by blast
qed

lemma fsub_not_Nan: "ieee lib \<Longrightarrow> a \<noteq> Nan \<Longrightarrow> fsub lib a (Fin y) \<noteq> Nan"
  by (cases a) (auto simp: ieee_def)

lemma fdiv_not_Nan: "ieee lib \<Longrightarrow> a \<noteq> Nan \<Longrightarrow> y \<noteq> 0 \<Longrightarrow> fdiv lib a (Fin y) \<noteq> Nan"
  by (cases a) (auto simp: ieee_def)

lemma fmul_not_Nan: "ieee lib \<Longrightarrow> a \<noteq> Nan \<Longrightarrow> fmul lib a (Fin 100) \<noteq> Nan"
  by (cases a) (auto simp: ieee_def)

lemma to_f64_denominator:
  assumes "ieee lib" and "finite_scalar p" and "\<not> is_zero p"
    and "\<And>i. p = I64 i \<Longrightarrow> \<bar>i\<bar> \<le> 2 ^ 63"
  shows "\<exists>y. y \<noteq> 0 \<and> to_f64 lib p = Fin y"
proof (cases p)
  case (I64 i)
  with assms show ?thesis by (auto simp: ieee_def)
next
  case (F64 x)
  with assms show ?thesis by (cases x) auto
qed

lemma to_f64_not_Nan:
  assumes "ieee lib" and "finite_scalar s"
  shows "to_f64 lib s \<noteq> Nan"
proof (cases s)
  case (I64 i)
  with assms show ?thesis by (auto simp: ieee_def)
next
  case (F64 x)
  with assms show ?thesis by (cases x) auto
qed

lemma to_f64_sub_not_Nan:
  assumes "ieee lib" and "finite_scalar s" and "to_f64 lib p = Fin y"
  shows "to_f64 lib (sub lib s p) \<noteq> Nan"
proof (cases "\<exists>a b. s = I64 a \<and> p = I64 b")
  case True
  with assms(1) show ?thesis by (auto simp: ieee_def)
next
  case False
  then have "sub lib s p = F64 (fsub lib (to_f64 lib s) (to_f64 lib p))"
    by (cases s; cases p) auto
  then show ?thesis
    using fsub_not_Nan [OF assms(1) to_f64_not_Nan [OF assms(1,2)], of y] assms(3) by simp
qed

section \<open>Auxiliary lemmas: running the loader\<close>

lemma read_source_upload:
  "b \<noteq> [] \<Longrightarrow> read_source lib (Some b) False = read_csv lib b"
  by (simp add: read_source_def)

lemma load_df_reader_error:
  "read_source lib fb flag = Inl e \<Longrightarrow> load_df lib fb flag = Inl e"
  by (simp add: load_df_def)

lemma isoformat_rejected: "to_datetime_cell (Str (isoformat p)) = Inl ValueError"
  by (cases p) (simp add: isoformat_def strftime_Ym_def nat_strings_def split: option.splits)

lemmas run_defs = load_df_def read_source_def getitem_def to_numeric_def reading_def
  four_columns_def upload_def col_month_def col_sales_def col_prev_year_def col_growth_def
  nat_strings_def digit_def in_bounds_def unsigned_decimal_def

lemma sample_dtypes:
  "frame_dtypes SAMPLE_CSV
     = \<lparr>sales_dtype = int64, prev_year_dtype = int64, growth_dtype = float64\<rparr>"
  by (simp add: frame_dtypes_def column_dtype_def SAMPLE_CSV_def col_month_def col_sales_def
      col_prev_year_def col_growth_def)

lemma map_sales_augment: "map sales (augment w df) = map sales df"
  by (simp add: list_eq_iff_nth_eq length_augment augment_nth)

lemma sample_sales:
  "map sales (augment 3 sample_table)
     = [Some 12000000, Some 13500000, Some 11000000, Some 18000000, Some 21000000,
        Some 19500000, Some 17500000, Some 16000000, Some 15500000, Some 22000000,
        Some 23000000, Some 24000000]"
  by (simp add: map_sales_augment sample_table_def)

lemma sample_total:
  "total_sales lib (frame_dtypes SAMPLE_CSV) (augment 3 sample_table) = Inr 213000000"
  by (simp add: total_sales_def series_sum_def sample_dtypes sample_sales wrap64_def)

lemma sample_kpis:
  "avg_growth (augment 3 sample_table) = Some (607 / 60)"
  "map (\<lambda>r. (month_label r, sales_ma r)) (take 3 (augment 3 sample_table))
     = [(''2024-01'', None), (''2024-02'', None), (''2024-03'', Some (36500000 / 3))]"
  "map_sum id month_label (max_row (augment 3 sample_table)) = Inr ''2024-12''"
  "map_sum id month_label (min_row (augment 3 sample_table)) = Inr ''2024-03''"
  by code_simp+

section \<open>The claims\<close>

subsection \<open>C1: what the loader returns\<close>

text \<open>
  Claim C1 says that \<^verbatim>\<open>load_df\<close> returns a table for every input and never raises: a row
  with a bad month is dropped, and a structural problem gives an empty or invalid table.
  The source has no handler anywhere, so whatever a pandas call raises reaches the caller.
  What holds is this. An error of the reader is the error of \<^verbatim>\<open>load_df\<close>. When the
  source reads as a frame that has the four columns and in which every month cell is
  missing or a month, \<^verbatim>\<open>load_df\<close> returns a table: the sorted rows of the frame that have
  a month, each with its three amounts coerced on their own (a text that is no number
  becomes missing and the row stays).
\<close>

theorem load_df_returns:
  "(\<forall>e. read_source lib fb flag = Inl e \<longrightarrow> load_df lib fb flag = Inl e)
   \<and> (\<forall>df. read_source lib fb flag = Inr df \<longrightarrow> required \<subseteq> set (columns df) \<longrightarrow>
          months_parse df \<longrightarrow>
          load_df lib fb flag
            = Inr (sort_rows lib (List.map_filter (row_of lib (columns df)) (cells df))))"
  using load_df_Inr_iff [of lib fb flag] by (auto simp: load_df_reader_error)

text \<open>
  The theorem at an upload of three rows, one without a month and one with a revenue that
  is no number, and at an upload on which the reader raises.
\<close>

theorem load_df_returns_witness:
  "load_df (reading (four_columns
       [[Str ''2024-02'', Str ''abc'', Num 1, Num 2],
        [NaN, Str ''7'', Num 8, Num 9],
        [Str ''2024-01'', Str ''12.5'', NaN, Num 2]])) (Some upload) False
     = Inr [\<lparr>month = (2024, 1), sales = Some (25 / 2), prev_year = None, growth = Some 2\<rparr>,
            \<lparr>month = (2024, 2), sales = None, prev_year = Some 1, growth = Some 2\<rparr>]
   \<and> load_df ((reading SAMPLE_CSV)\<lparr>read_csv := (\<lambda>b. Inl ParserError)\<rparr>) (Some upload) False
     = Inl ParserError"
  using load_df_returns [of "reading (four_columns
       [[Str ''2024-02'', Str ''abc'', Num 1, Num 2],
        [NaN, Str ''7'', Num 8, Num 9],
        [Str ''2024-01'', Str ''12.5'', NaN, Num 2]])" "Some upload" False]
    load_df_returns [of "(reading SAMPLE_CSV)\<lparr>read_csv := (\<lambda>b. Inl ParserError)\<rparr>"
      "Some upload" False]
  by (simp add: read_source_def reading_def four_columns_def upload_def required_def
      months_parse_def row_of_def col_month_def col_sales_def col_prev_year_def col_growth_def
      nat_strings_def digit_def in_bounds_def unsigned_decimal_def)

text \<open>
  Claim C1 as stated fails: a month cell \<^verbatim>\<open>2024-13\<close> makes \<^verbatim>\<open>pd.to_datetime\<close> raise
  \<^verbatim>\<open>ValueError\<close> (the call has no \<^verbatim>\<open>errors="coerce"\<close>), a frame without the column of
  the prior year makes \<^verbatim>\<open>df[col]\<close> raise \<^verbatim>\<open>KeyError\<close>, and on bytes that the reader
  rejects (bytes that are not UTF-8, say) the error of the reader comes out of
  \<^verbatim>\<open>load_df\<close>; in all three cases no table comes back.
\<close>

theorem load_df_raises:
  "load_df (reading (four_columns
       [[Str ''2024-01'', Num 1, Num 2, Num 3],
        [Str ''2024-13'', Num 4, Num 5, Num 6]])) (Some upload) False = Inl ValueError
   \<and> load_df (reading \<lparr>columns = [col_month, col_sales, col_growth],
                        cells = [[Str ''2024-01'', Num 1, Num 3]]\<rparr>) (Some upload) False
       = Inl (KeyError col_prev_year)
   \<and> load_df ((reading SAMPLE_CSV)\<lparr>read_csv := (\<lambda>b. Inl UnicodeDecodeError)\<rparr>)
         (Some upload) False
       = Inl UnicodeDecodeError"
  by (simp add: run_defs)

subsection \<open>C2: the moving average\<close>

text \<open>
  Claim C2: for a window \<open>w\<close> (the sidebar gives 2 to 12; the theorem needs only
  \<open>0 < w\<close>), the moving average of row \<open>i\<close> is the mean of the revenue of the rows
  \<open>i - w + 1\<close> to \<open>i\<close> when these \<open>w\<close> rows exist, and missing otherwise; so the first
  \<open>w - 1\<close> rows have none. A window that holds a missing revenue has no mean either:
  \<^verbatim>\<open>min_periods=window\<close> asks for \<open>w\<close> values that are present.
\<close>

theorem augment_moving_average:
  assumes "0 < w" and "i < length df"
  shows "sales_ma (augment w df ! i) =
     (if w \<le> Suc i \<and> (\<forall>j\<in>{Suc i - w..i}. sales (df ! j) \<noteq> None)
      then Some ((\<Sum>j = Suc i - w..i. the (sales (df ! j))) / of_nat w)
      else None)
     \<and> (i < w - 1 \<longrightarrow> sales_ma (augment w df ! i) = None)"
    (is "?ma = ?mean \<and> ?first")
proof -
  let ?xs = "map sales df"
  let ?win = "map ((!) ?xs) [Suc i - w..<Suc i]"
  have i: "i < length ?xs" using assms(2) by simp
  have ma: "sales_ma (augment w df ! i) = rolling_mean w ?xs ! i"
    using assms(2) by (simp add: augment_nth)
  have win: "?win = map (\<lambda>j. sales (df ! j)) [Suc i - w..<Suc i]"
    by (rule map_cong [OF refl]) (use assms(2) in \<open>auto simp del: upt_Suc\<close>)
  have len: "length ?win = Suc i - (Suc i - w)" by (simp del: upt_Suc)
  have main: "?ma = ?mean"
  proof (cases "w \<le> Suc i \<and> (\<forall>j\<in>{Suc i - w..i}. sales (df ! j) \<noteq> None)")
    case True
    have none: "None \<notin> set ?win"
    proof
      assume "None \<in> set ?win"
      then obtain j where "Suc i - w \<le> j" "j < Suc i" "sales (df ! j) = None"
        unfolding win by (auto simp del: upt_Suc)
      moreover from this have "j \<in> {Suc i - w..i}" by simp
      ultimately show False using True by blast
    qed
    have p: "present ?win = map (\<lambda>j. the (sales (df ! j))) [Suc i - w..<Suc i]"
      unfolding present_all [OF none] unfolding win by (simp add: comp_def)
    have l: "length (present ?win) = w" unfolding p using True by (simp del: upt_Suc)
    have "{Suc i - w..<Suc i} = {Suc i - w..i}" by auto
    then have s: "sum_list (present ?win) = (\<Sum>j = Suc i - w..i. the (sales (df ! j)))"
      unfolding p by (simp add: interv_sum_list_conv_sum_set_nat del: upt_Suc)
    have ne: "present ?win \<noteq> []" using l assms(1) by auto
    show ?thesis
      unfolding ma rolling_mean_nth [OF i] using True l s ne by (simp add: Let_def)
  next
    case False
    have "length (present ?win) < w"
    proof (cases "w \<le> Suc i")
      case True
      with False obtain j where j: "Suc i - w \<le> j" "j \<le> i" "sales (df ! j) = None" by auto
      then have "j \<in> set [Suc i - w..<Suc i]" by auto
      with j(3) have "None \<in> set ?win" unfolding win set_map by (metis imageI)
      from length_present_less [OF this] show ?thesis using True len by simp
    next
      case False
      then show ?thesis using length_present_le [of ?win] len by simp
    qed
    then show ?thesis
      unfolding ma rolling_mean_nth [OF i] using False by (simp add: Let_def)
  qed
  then have ?first by auto
  with main show ?thesis by blast
qed

text \<open>
  The theorem on the sample with window 3 (second row: no average; third row: a third of
  36,500,000) and on a window that holds a missing revenue.
\<close>

theorem augment_moving_average_witness:
  "sales_ma (augment 3 sample_table ! 1) = None
   \<and> sales_ma (augment 3 sample_table ! 2) = Some (36500000 / 3)
   \<and> sales_ma (augment 2 [\<lparr>month = (2024, 1), sales = Some 4, prev_year = None, growth = None\<rparr>,
                           \<lparr>month = (2024, 2), sales = None, prev_year = None, growth = None\<rparr>,
                           \<lparr>month = (2024, 3), sales = Some 6, prev_year = None, growth = None\<rparr>] ! 2)
       = None"
proof -
  have I: "{0..2} = {0, 1, 2::nat}" "{Suc 0..2} = {1, 2::nat}" by auto
  show ?thesis
    using augment_moving_average [of 3 1 sample_table]
      augment_moving_average [of 3 2 sample_table]
      augment_moving_average [of 2 2
        "[\<lparr>month = (2024, 1), sales = Some 4, prev_year = None, growth = None\<rparr>,
          \<lparr>month = (2024, 2), sales = None, prev_year = None, growth = None\<rparr>,
          \<lparr>month = (2024, 3), sales = Some 6, prev_year = None, growth = None\<rparr>]"]
    by (simp add: sample_table_def I)
qed

subsection \<open>C3: the cumulative year-over-year change\<close>

text \<open>
  Claim C3 says that \<^verbatim>\<open>yoy_total\<close> is missing exactly when the sum of the prior-year
  revenue is zero, and is otherwise (sum of revenue - sum of prior-year revenue) / sum of
  prior-year revenue * 100. The sums of the code are those of \<^verbatim>\<open>Series.sum()\<close>: of an
  \<^verbatim>\<open>int64\<close> column the sum modulo \<open>2 ^ 64\<close>, of a \<^verbatim>\<open>float64\<close> column the rounded float
  sum (the last two lines of the theorem). What holds, with \<open>s\<close> and \<open>p\<close> the two sums as
  computed: the result is \<^verbatim>\<open>nan\<close> when
  \<open>p\<close> is zero; otherwise it is \<open>(s - p) / p * 100\<close> in the arithmetic of numpy scalars; and
  when both sums are finite it is \<^verbatim>\<open>nan\<close> only when \<open>p\<close> is zero. The expression has no
  failing branch: the division is guarded, so nothing is raised.
\<close>

theorem yoy_total_zero_denominator:
  assumes "ieee lib"
  shows "let s = series_sum lib (sales_dtype dts) (map sales df);
             p = series_sum lib (prev_year_dtype dts) (map prev_year df)
         in (is_zero p \<longrightarrow> yoy_total lib dts df = Nan)
          \<and> (\<not> is_zero p \<longrightarrow>
               yoy_total lib dts df
                 = fmul lib (fdiv lib (to_f64 lib (sub lib s p)) (to_f64 lib p)) (Fin 100))
          \<and> (finite_scalar s \<longrightarrow> finite_scalar p \<longrightarrow>
               (yoy_total lib dts df = Nan \<longleftrightarrow> is_zero p))
          \<and> p = (if prev_year_dtype dts = int64 \<and> None \<notin> set (map prev_year df)
                 then I64 (wrap64 (\<Sum>r\<leftarrow>df. \<lfloor>fill0 (prev_year r)\<rfloor>))
                 else F64 (fsum lib (map (\<lambda>r. fill0 (prev_year r)) df)))
          \<and> s = (if sales_dtype dts = int64 \<and> None \<notin> set (map sales df)
                 then I64 (wrap64 (\<Sum>r\<leftarrow>df. \<lfloor>fill0 (sales r)\<rfloor>))
                 else F64 (fsum lib (map (\<lambda>r. fill0 (sales r)) df)))"
proof -
  define s where "s = series_sum lib (sales_dtype dts) (map sales df)"
  define p where "p = series_sum lib (prev_year_dtype dts) (map prev_year df)"
  have yoy: "yoy_total lib dts df
      = (if \<not> is_zero p
         then fmul lib (fdiv lib (to_f64 lib (sub lib s p)) (to_f64 lib p)) (Fin 100) else Nan)"
    by (simp add: yoy_total_def truediv_def s_def p_def Let_def)
  have range: "\<bar>i\<bar> \<le> 2 ^ 63" if "p = I64 i" for i
    using that series_sum_cases [of lib "prev_year_dtype dts" "map prev_year df"]
    unfolding p_def by (metis scalar.distinct(1) scalar.inject(1))
  have finite: "yoy_total lib dts df \<noteq> Nan"
    if "finite_scalar s" "finite_scalar p" "\<not> is_zero p"
  proof -
    from to_f64_denominator [OF assms that(2,3) range]
    obtain y where y: "y \<noteq> 0" "to_f64 lib p = Fin y" by blast
    have "to_f64 lib (sub lib s p) \<noteq> Nan"
      by (rule to_f64_sub_not_Nan [OF assms that(1) y(2)])
    then have "fdiv lib (to_f64 lib (sub lib s p)) (Fin y) \<noteq> Nan"
      using fdiv_not_Nan [OF assms _ y(1)] by blast
    then have "fmul lib (fdiv lib (to_f64 lib (sub lib s p)) (Fin y)) (Fin 100) \<noteq> Nan"
      by (rule fmul_not_Nan [OF assms])
    then show ?thesis using yoy that(3) y(2) by simp
  qed
  have sum: "p = (if prev_year_dtype dts = int64 \<and> None \<notin> set (map prev_year df)
                 then I64 (wrap64 (\<Sum>r\<leftarrow>df. \<lfloor>fill0 (prev_year r)\<rfloor>))
                 else F64 (fsum lib (map (\<lambda>r. fill0 (prev_year r)) df)))"
    by (simp add: p_def series_sum_def comp_def)
  have sum': "s = (if sales_dtype dts = int64 \<and> None \<notin> set (map sales df)
                 then I64 (wrap64 (\<Sum>r\<leftarrow>df. \<lfloor>fill0 (sales r)\<rfloor>))
                 else F64 (fsum lib (map (\<lambda>r. fill0 (sales r)) df)))"
    by (simp add: s_def series_sum_def comp_def)
  have "(is_zero p \<longrightarrow> yoy_total lib dts df = Nan)
      \<and> (\<not> is_zero p \<longrightarrow>
           yoy_total lib dts df
             = fmul lib (fdiv lib (to_f64 lib (sub lib s p)) (to_f64 lib p)) (Fin 100))
      \<and> (finite_scalar s \<longrightarrow> finite_scalar p \<longrightarrow>
           (yoy_total lib dts df = Nan \<longleftrightarrow> is_zero p))"
    using yoy finite by auto
  with sum sum' show ?thesis
    unfolding Let_def s_def [symmetric] p_def [symmetric] by blast
qed

text \<open>
  The theorem on two tables of float columns, with exact arithmetic: prior-year revenue
  80 and revenue 100 give 25; prior-year revenue 0 gives \<^verbatim>\<open>nan\<close>.
\<close>

theorem yoy_total_zero_denominator_witness:
  "yoy_total (reading gappy_upload)
      \<lparr>sales_dtype = float64, prev_year_dtype = float64, growth_dtype = float64\<rparr>
      [\<lparr>month = (2024, 1), sales = Some 100, prev_year = Some 80, growth = None\<rparr>] = Fin 25
   \<and> yoy_total (reading gappy_upload)
      \<lparr>sales_dtype = float64, prev_year_dtype = float64, growth_dtype = float64\<rparr>
      [\<lparr>month = (2024, 1), sales = Some 5, prev_year = Some 0, growth = None\<rparr>,
       \<lparr>month = (2024, 2), sales = Some 7, prev_year = None, growth = None\<rparr>] = Nan"
  using yoy_total_zero_denominator [OF ieee_reading, of gappy_upload
      "\<lparr>sales_dtype = float64, prev_year_dtype = float64, growth_dtype = float64\<rparr>"
      "[\<lparr>month = (2024, 1), sales = Some 100, prev_year = Some 80, growth = None\<rparr>]"]
    yoy_total_zero_denominator [OF ieee_reading, of gappy_upload
      "\<lparr>sales_dtype = float64, prev_year_dtype = float64, growth_dtype = float64\<rparr>"
      "[\<lparr>month = (2024, 1), sales = Some 5, prev_year = Some 0, growth = None\<rparr>,
        \<lparr>month = (2024, 2), sales = Some 7, prev_year = None, growth = None\<rparr>]"]
  by (simp add: Let_def series_sum_def reading_def)

text \<open>
  Claim C3 as stated fails: an upload of four rows with a prior-year revenue of \<open>2 ^ 62\<close>
  each has two \<^verbatim>\<open>int64\<close> columns; the prior-year revenue adds up to \<open>2 ^ 64\<close>, the sum of
  the code wraps around to zero, and the result is \<^verbatim>\<open>nan\<close>.
\<close>

theorem yoy_total_wraps:
  "load_df (reading wrapping_upload) (Some upload) False
     = Inr [\<lparr>month = (2024, 1), sales = Some 1, prev_year = Some (2 ^ 62), growth = Some 0\<rparr>,
            \<lparr>month = (2024, 2), sales = Some 1, prev_year = Some (2 ^ 62), growth = Some 0\<rparr>,
            \<lparr>month = (2024, 3), sales = Some 1, prev_year = Some (2 ^ 62), growth = Some 0\<rparr>,
            \<lparr>month = (2024, 4), sales = Some 1, prev_year = Some (2 ^ 62), growth = Some 0\<rparr>]
   \<and> frame_dtypes wrapping_upload
     = \<lparr>sales_dtype = int64, prev_year_dtype = int64, growth_dtype = float64\<rparr>
   \<and> yoy_total (reading wrapping_upload) (frame_dtypes wrapping_upload)
        [\<lparr>month = (2024, 1), sales = Some 1, prev_year = Some (2 ^ 62), growth = Some 0\<rparr>,
         \<lparr>month = (2024, 2), sales = Some 1, prev_year = Some (2 ^ 62), growth = Some 0\<rparr>,
         \<lparr>month = (2024, 3), sales = Some 1, prev_year = Some (2 ^ 62), growth = Some 0\<rparr>,
         \<lparr>month = (2024, 4), sales = Some 1, prev_year = Some (2 ^ 62), growth = Some 0\<rparr>]
     = Nan
   \<and> (2 ^ 62 + 2 ^ 62 + 2 ^ 62 + 2 ^ 62 :: rat) = 2 ^ 64
   \<and> (2 ^ 64 :: rat) \<noteq> 0"
  by (simp add: run_defs wrapping_upload_def frame_dtypes_def column_dtype_def yoy_total_def
      series_sum_def wrap64_def)

subsection \<open>C4: the sample, end to end\<close>

text \<open>
  Claim C4, on the embedded sample with window 3. The total revenue is 213,000,000 (the
  sum of an \<^verbatim>\<open>int64\<close> column, far from wrapping around); the
  first two rows have no moving average and the third has 36,500,000 / 3, which is
  12,166,666.67 to the cent; the month of the largest revenue is 2024-12 and of the
  smallest 2024-03. The mean of the growth column is 121.4 / 12 = 607 / 60, about 10.1, and
  not the 9.7 of the claim. This holds whatever the sort does with equal months, since the
  months of the sample are all different.
\<close>

theorem sample_end_to_end:
  assumes "sorts lib"
  shows "\<exists>t. load_df lib fb True = Inr t \<and> valid t \<and> length t = 12
     \<and> total_sales lib (frame_dtypes SAMPLE_CSV) (augment 3 t) = Inr 213000000
     \<and> avg_growth (augment 3 t) = Some (607 / 60)
     \<and> \<bar>(607 / 60 :: rat) - 101 / 10\<bar> < 1 / 20
     \<and> map (\<lambda>r. (month_label r, sales_ma r)) (take 3 (augment 3 t))
         = [(''2024-01'', None), (''2024-02'', None), (''2024-03'', Some (36500000 / 3))]
     \<and> \<bar>(36500000 / 3 :: rat) - 1216666667 / 100\<bar> < 1 / 200
     \<and> map_sum id month_label (max_row (augment 3 t)) = Inr ''2024-12''
     \<and> map_sum id month_label (min_row (augment 3 t)) = Inr ''2024-03''"
proof -
  have "valid sample_table" "length sample_table = 12"
    by (simp_all add: valid_def sample_table_def)
  then show ?thesis
    using load_sample [OF assms, of fb] sample_kpis sample_total [of lib] by simp
qed

text \<open>
  The theorem with the library fixed.
\<close>

theorem sample_end_to_end_witness:
  "\<exists>t. load_df (reading SAMPLE_CSV) None True = Inr t \<and> length t = 12
     \<and> total_sales (reading SAMPLE_CSV) (frame_dtypes SAMPLE_CSV) (augment 3 t)
         = Inr 213000000
     \<and> avg_growth (augment 3 t) = Some (607 / 60)"
  using sample_end_to_end [OF sorts_reading, of SAMPLE_CSV None] by blast

text \<open>
  Claim C4 as stated fails in its mean growth: the code computes 607 / 60, which is 9.7
  and 5 / 12 more.
\<close>

theorem sample_mean_growth_differs:
  "load_df (reading SAMPLE_CSV) None True = Inr sample_table
   \<and> avg_growth (augment 3 sample_table) = Some (607 / 60)
   \<and> (607 / 60 :: rat) = 97 / 10 + 5 / 12"
  using load_sample [OF sorts_reading, of SAMPLE_CSV None] sample_kpis(1) by simp

subsection \<open>C5: missing amounts in the summary figures\<close>

text \<open>
  Claim C5 says that a missing amount makes the summary figure of its column missing. The
  reductions of pandas skip missing values by default, and the source passes no
  \<^verbatim>\<open>skipna=False\<close>. What holds of a column with a missing amount: its sum is the float sum
  of the column with zero in the place of every missing amount, so the total is that sum
  cut off by \<^verbatim>\<open>int\<close>, and with a missing amount in both columns the cumulative change is
  \<open>(s - p) / p * 100\<close> of the two such sums (\<^verbatim>\<open>nan\<close> when \<open>p\<close> is zero); the mean growth is
  the mean over the rows that have a growth, and is missing only when no row has one.
\<close>

theorem summaries_skip_missing:
  "(None \<in> set xs \<longrightarrow> series_sum lib dt xs = F64 (fsum lib (map fill0 xs)))
   \<and> (None \<in> set (map sales df) \<longrightarrow>
        total_sales lib dts df =
          (case fsum lib (map (\<lambda>r. fill0 (sales r)) df) of
             Fin x \<Rightarrow> Inr (py_int x) | Nan \<Rightarrow> Inl ValueError | _ \<Rightarrow> Inl OverflowError))
   \<and> avg_growth df =
       (if \<forall>r\<in>set df. growth r = None then None
        else Some ((\<Sum>r\<leftarrow>df. case growth r of None \<Rightarrow> 0 | Some v \<Rightarrow> v)
                     / of_nat (length (filter (\<lambda>r. growth r \<noteq> None) df))))
   \<and> (None \<in> set (map sales df) \<longrightarrow> None \<in> set (map prev_year df) \<longrightarrow>
        yoy_total lib dts df =
          (let s = fsum lib (map (\<lambda>r. fill0 (sales r)) df);
               p = fsum lib (map (\<lambda>r. fill0 (prev_year r)) df)
           in if p = Fin 0 then Nan else fmul lib (fdiv lib (fsub lib s p) p) (Fin 100)))"
proof (intro conjI impI)
  show "series_sum lib dt xs = F64 (fsum lib (map fill0 xs))" if "None \<in> set xs"
    using that by (rule series_sum_missing)
next
  assume "None \<in> set (map sales df)"
  then have "series_sum lib (sales_dtype dts) (map sales df)
      = F64 (fsum lib (map (\<lambda>r. fill0 (sales r)) df))"
    by (simp add: series_sum_missing comp_def)
  then show "total_sales lib dts df =
      (case fsum lib (map (\<lambda>r. fill0 (sales r)) df) of
         Fin x \<Rightarrow> Inr (py_int x) | Nan \<Rightarrow> Inl ValueError | _ \<Rightarrow> Inl OverflowError)"
    by (simp add: total_sales_def split: f64.splits)
next
  show "avg_growth df =
       (if \<forall>r\<in>set df. growth r = None then None
        else Some ((\<Sum>r\<leftarrow>df. case growth r of None \<Rightarrow> 0 | Some v \<Rightarrow> v)
                     / of_nat (length (filter (\<lambda>r. growth r \<noteq> None) df))))"
    by (simp add: avg_growth_def series_mean_conv)
next
  assume "None \<in> set (map sales df)" and "None \<in> set (map prev_year df)"
  then have s: "series_sum lib (sales_dtype dts) (map sales df)
      = F64 (fsum lib (map (\<lambda>r. fill0 (sales r)) df))"
    and p: "series_sum lib (prev_year_dtype dts) (map prev_year df)
      = F64 (fsum lib (map (\<lambda>r. fill0 (prev_year r)) df))"
    by (simp_all add: series_sum_missing comp_def)
  have z: "is_zero (F64 x) \<longleftrightarrow> x = Fin 0" for x
    by (cases x) auto
  show "yoy_total lib dts df =
      (let s = fsum lib (map (\<lambda>r. fill0 (sales r)) df);
           p = fsum lib (map (\<lambda>r. fill0 (prev_year r)) df)
       in if p = Fin 0 then Nan else fmul lib (fdiv lib (fsub lib s p) p) (Fin 100))"
    by (simp add: yoy_total_def s p z truediv_def Let_def)
qed

text \<open>
  The theorem, with exact arithmetic, on a table of two rows, the second without any
  amount: the total is 100, the mean growth 25 and the cumulative change 25; and on that
  second row alone, which has no mean growth.
\<close>

theorem summaries_skip_missing_witness:
  "total_sales (reading gappy_upload)
      \<lparr>sales_dtype = float64, prev_year_dtype = float64, growth_dtype = float64\<rparr>
      [\<lparr>month = (2024, 1), sales = Some 100, prev_year = Some 80, growth = Some 25\<rparr>,
       \<lparr>month = (2024, 2), sales = None, prev_year = None, growth = None\<rparr>] = Inr 100
   \<and> avg_growth [\<lparr>month = (2024, 1), sales = Some 100, prev_year = Some 80, growth = Some 25\<rparr>,
                \<lparr>month = (2024, 2), sales = None, prev_year = None, growth = None\<rparr>] = Some 25
   \<and> yoy_total (reading gappy_upload)
      \<lparr>sales_dtype = float64, prev_year_dtype = float64, growth_dtype = float64\<rparr>
      [\<lparr>month = (2024, 1), sales = Some 100, prev_year = Some 80, growth = Some 25\<rparr>,
       \<lparr>month = (2024, 2), sales = None, prev_year = None, growth = None\<rparr>] = Fin 25
   \<and> avg_growth [\<lparr>month = (2024, 2), sales = None, prev_year = None, growth = None\<rparr>] = None"
  using summaries_skip_missing [of "[None]" "reading gappy_upload" float64
      "[\<lparr>month = (2024, 1), sales = Some 100, prev_year = Some 80, growth = Some 25\<rparr>,
        \<lparr>month = (2024, 2), sales = None, prev_year = None, growth = None\<rparr>]"
      "\<lparr>sales_dtype = float64, prev_year_dtype = float64, growth_dtype = float64\<rparr>"]
    summaries_skip_missing [of "[None]" "reading gappy_upload" float64
      "[\<lparr>month = (2024, 2), sales = None, prev_year = None, growth = None\<rparr>]"
      "\<lparr>sales_dtype = float64, prev_year_dtype = float64, growth_dtype = float64\<rparr>"]
  by (simp add: Let_def reading_def py_int_def)

text \<open>
  Claim C5 as stated fails: an upload of two rows, the second without any amount, loads
  as a table of float columns whose three figures are numbers, computed from the first
  row.
\<close>

theorem missing_not_propagated:
  "load_df (reading gappy_upload) (Some upload) False
     = Inr [\<lparr>month = (2024, 1), sales = Some 100, prev_year = Some 80, growth = Some 25\<rparr>,
            \<lparr>month = (2024, 2), sales = None, prev_year = None, growth = None\<rparr>]
   \<and> total_sales (reading gappy_upload) (frame_dtypes gappy_upload)
        [\<lparr>month = (2024, 1), sales = Some 100, prev_year = Some 80, growth = Some 25\<rparr>,
         \<lparr>month = (2024, 2), sales = None, prev_year = None, growth = None\<rparr>] = Inr 100
   \<and> avg_growth [\<lparr>month = (2024, 1), sales = Some 100, prev_year = Some 80, growth = Some 25\<rparr>,
                \<lparr>month = (2024, 2), sales = None, prev_year = None, growth = None\<rparr>] = Some 25
   \<and> yoy_total (reading gappy_upload) (frame_dtypes gappy_upload)
        [\<lparr>month = (2024, 1), sales = Some 100, prev_year = Some 80, growth = Some 25\<rparr>,
         \<lparr>month = (2024, 2), sales = None, prev_year = None, growth = None\<rparr>] = Fin 25"
  by (simp add: run_defs gappy_upload_def frame_dtypes_def column_dtype_def total_sales_def
      avg_growth_def yoy_total_def series_sum_def series_mean_def truediv_def py_int_def)

subsection \<open>C7: a bad month against a bad amount\<close>

text \<open>
  Claim C7: a row with an unparseable month is absent from the loaded table, and a row with
  an unparseable amount is present with that amount missing. The second half is what
  \<^verbatim>\<open>pd.to_numeric(errors="coerce")\<close> does. The first half is what \<^verbatim>\<open>dropna\<close> on the month
  column is there for, but \<^verbatim>\<open>pd.to_datetime\<close> is called without \<^verbatim>\<open>errors="coerce"\<close>: at
  a month cell \<^verbatim>\<open>2024/02\<close> the load raises \<^verbatim>\<open>ValueError\<close> and no table is made at all.
\<close>

theorem bad_period_aborts_load:
  "load_df (reading (four_columns
       [[Str ''2024-01'', Num 100, Num 90, Num 11],
        [Str ''2024/02'', Num 120, Num 95, Num 26]])) (Some upload) False = Inl ValueError
   \<and> load_df (reading (four_columns
       [[Str ''2024-01'', Str ''100'', Num 90, Num 11],
        [Str ''2024-02'', Str ''12o'', Num 95, Num 26]])) (Some upload) False
     = Inr [\<lparr>month = (2024, 1), sales = Some 100, prev_year = Some 90, growth = Some 11\<rparr>,
            \<lparr>month = (2024, 2), sales = None, prev_year = Some 95, growth = Some 26\<rparr>]"
  by (simp add: run_defs)

subsection \<open>C8: ties of the largest and smallest revenue\<close>

text \<open>
  Claim C8: when several rows have the largest (smallest) revenue, \<^verbatim>\<open>max_row\<close>
  (\<^verbatim>\<open>min_row\<close>) is the first of them in the order of the table, which is ascending by
  month. Here \<open>i\<close> is the first row whose revenue is \<open>m\<close>, and no revenue that is present
  is larger (smaller) than \<open>m\<close>.
\<close>

theorem extremum_first_occurrence:
  assumes "i < length df" and "sales (df ! i) = Some m"
    and "\<forall>j<i. sales (df ! j) \<noteq> Some m"
  shows "((\<forall>r\<in>set df. \<forall>v. sales r = Some v \<longrightarrow> v \<le> m) \<longrightarrow> max_row df = Inr (df ! i))
       \<and> ((\<forall>r\<in>set df. \<forall>v. sales r = Some v \<longrightarrow> m \<le> v) \<longrightarrow> min_row df = Inr (df ! i))"
proof (intro conjI impI)
  assume top: "\<forall>r\<in>set df. \<forall>v. sales r = Some v \<longrightarrow> v \<le> m"
  have "argbest (\<lambda>v b. b < v) 0 None (map sales df) = Some (0 + i, m)"
    by (rule argbest_first) (use assms top in \<open>auto simp: not_less\<close>)
  then show "max_row df = Inr (df ! i)" using assms(1) by (auto simp: max_row_def idxmax_def)
next
  assume bot: "\<forall>r\<in>set df. \<forall>v. sales r = Some v \<longrightarrow> m \<le> v"
  have "argbest (\<lambda>v b. v < b) 0 None (map sales df) = Some (0 + i, m)"
    by (rule argbest_first) (use assms bot in \<open>auto simp: not_less\<close>)
  then show "min_row df = Inr (df ! i)" using assms(1) by (auto simp: min_row_def idxmin_def)
qed

text \<open>
  The theorem on a table in which 9 is the revenue of February and March and 5 the one of
  January and April: the rows found are those of February and of January.
\<close>

theorem extremum_first_occurrence_witness:
  "map_sum id month (max_row
      [\<lparr>month = (2024, 1), sales = Some 5, prev_year = None, growth = None\<rparr>,
       \<lparr>month = (2024, 2), sales = Some 9, prev_year = None, growth = None\<rparr>,
       \<lparr>month = (2024, 3), sales = Some 9, prev_year = None, growth = None\<rparr>,
       \<lparr>month = (2024, 4), sales = Some 5, prev_year = None, growth = None\<rparr>]) = Inr (2024, 2)
   \<and> map_sum id month (min_row
      [\<lparr>month = (2024, 1), sales = Some 5, prev_year = None, growth = None\<rparr>,
       \<lparr>month = (2024, 2), sales = Some 9, prev_year = None, growth = None\<rparr>,
       \<lparr>month = (2024, 3), sales = Some 9, prev_year = None, growth = None\<rparr>,
       \<lparr>month = (2024, 4), sales = Some 5, prev_year = None, growth = None\<rparr>]) = Inr (2024, 1)"
  using extremum_first_occurrence [of 1
      "[\<lparr>month = (2024, 1), sales = Some 5, prev_year = None, growth = None\<rparr>,
        \<lparr>month = (2024, 2), sales = Some 9, prev_year = None, growth = None\<rparr>,
        \<lparr>month = (2024, 3), sales = Some 9, prev_year = None, growth = None\<rparr>,
        \<lparr>month = (2024, 4), sales = Some 5, prev_year = None, growth = None\<rparr>]" 9]
    extremum_first_occurrence [of 0
      "[\<lparr>month = (2024, 1), sales = Some 5, prev_year = None, growth = None\<rparr>,
        \<lparr>month = (2024, 2), sales = Some 9, prev_year = None, growth = None\<rparr>,
        \<lparr>month = (2024, 3), sales = Some 9, prev_year = None, growth = None\<rparr>,
        \<lparr>month = (2024, 4), sales = Some 5, prev_year = None, growth = None\<rparr>]" 5]
  by simp

subsection \<open>C9: export and load again\<close>

text \<open>
  Claim C9: loading the exported file gives the table back. The preview next to the
  download shows the label column under the name of the month column; the download itself
  writes the whole frame, whose month column holds timestamps, written as \<^verbatim>\<open>2024-01-01\<close>.
  The loader matches that column against \<^verbatim>\<open>%Y-%m\<close>: for every table that is not empty,
  loading its export raises \<^verbatim>\<open>ValueError\<close>.
\<close>

theorem reload_of_export_raises:
  assumes "df \<noteq> []" and "b \<noteq> []"
    and "read_csv lib b = Inr (exported dts (augment w df))"
  shows "load_df lib (Some b) False = Inl ValueError"
proof -
  from assms(1) obtain r rs where df: "augment w df = r # rs"
    using length_augment [of w df] by (cases "augment w df") auto
  have "read_source lib (Some b) False = Inr (exported dts (r # rs))"
    using assms(2,3) df by (simp add: read_source_upload)
  moreover have "getitem (exported dts (r # rs)) col_month
      = Inr (Str (isoformat (month r))
             # map (\<lambda>c. lookup (columns (exported dts (r # rs))) c col_month)
                 (cells (exported dts rs)))"
    by (simp add: getitem_def exported_def)
  moreover have "to_datetime (Str (isoformat (month r)) # cs) = Inl ValueError" for cs
    by (simp add: isoformat_rejected del: to_datetime_cell.simps)
  ultimately show ?thesis
    by (simp add: load_df_def)
qed

text \<open>
  The theorem on the sample: it loads, passes the check of the caller, and its export
  does not load.
\<close>

theorem reload_of_export_raises_witness:
  "load_df (reading SAMPLE_CSV) None True = Inr sample_table
   \<and> valid sample_table
   \<and> load_df (reading (exported (frame_dtypes SAMPLE_CSV) (augment 3 sample_table))) (Some upload) False = Inl ValueError"
proof -
  have "sample_table \<noteq> []" by (simp add: sample_table_def)
  moreover have "upload \<noteq> []" by (simp add: upload_def)
  moreover have "read_csv (reading (exported (frame_dtypes SAMPLE_CSV) (augment 3 sample_table))) upload
      = Inr (exported (frame_dtypes SAMPLE_CSV) (augment 3 sample_table))"
    by (simp add: reading_def)
  ultimately have "load_df (reading (exported (frame_dtypes SAMPLE_CSV) (augment 3 sample_table))) (Some upload) False
      = Inl ValueError"
    by (rule reload_of_export_raises)
  then show ?thesis
    using load_sample [OF sorts_reading, of SAMPLE_CSV None]
    by (simp add: valid_def sample_table_def)
qed

subsection \<open>C10: the derived columns leave the table alone\<close>

text \<open>
  Claim C10: for every table and window, the table with the derived columns has as many
  rows as the table, and its rows without the two derived columns are the rows of the
  table: month, revenue, prior-year revenue and growth are unchanged.
\<close>

theorem augment_only_adds:
  "length (augment w df) = length df \<and> map row.truncate (augment w df) = df"
  by (simp add: length_augment list_eq_iff_nth_eq augment_nth row.truncate_def)

end
